theory Spec2Isabelle
  imports Complex_Main "HOL-Library.AList"
begin

section \<open>Values of type \<open>interface{}\<close> and parameter maps\<close>

text \<open>
  A tool receives its arguments as a Go \<open>map[string]interface{}\<close>. The dynamic types that
  occur in this repository are the ones \<open>encoding/json\<close> produces (nil, bool, float64,
  string, slice, map) and the Go integers \<open>int\<close> and \<open>int64\<close> that \<open>GetIntParam\<close> also
  accepts. A finite \<open>float64\<close> is an exact dyadic rational, so it is represented by the
  rational number it denotes; \<open>int\<close> and \<open>int64\<close> values are the integers they denote.
\<close>

datatype go_value =
    VNil
  | VBool bool
  | VFloat64 rat
  | VInt int
  | VInt64 int
  | VString string
  | VArray "go_value list"
  | VMap "(string \<times> go_value) list"

datatype go_type = TNil | TBool | TFloat64 | TInt | TInt64 | TString | TSlice | TMap

fun type_of :: "go_value \<Rightarrow> go_type" where
  "type_of VNil = TNil"
| "type_of (VBool b) = TBool"
| "type_of (VFloat64 n) = TFloat64"
| "type_of (VInt n) = TInt"
| "type_of (VInt64 n) = TInt64"
| "type_of (VString s) = TString"
| "type_of (VArray xs) = TSlice"
| "type_of (VMap kvs) = TMap"

type_synonym params = "string \<rightharpoonup> go_value"

text \<open>
  The conversion \<open>int(n)\<close> of a \<open>float64\<close>: Go discards the fraction (truncation towards
  zero) when the result fits the 64-bit \<open>int\<close>. When it does not fit, the language leaves
  the result to the implementation; the value written out here is the one the amd64
  instruction produces, the smallest \<open>int\<close>.
\<close>

definition truncate_float64 :: "rat \<Rightarrow> int" where
  "truncate_float64 n = (if 0 \<le> n then \<lfloor>n\<rfloor> else \<lceil>n\<rceil>)"

definition int_of_float64 :: "rat \<Rightarrow> int" where
  "int_of_float64 n =
     (let t = truncate_float64 n
      in if - (2 ^ 63) \<le> t \<and> t < 2 ^ 63 then t else - (2 ^ 63))"

text \<open>
  \<open>GetIntParam\<close> and \<open>GetStringParam\<close> (package mcp). An error is the message
  \<open>fmt.Errorf\<close> builds; the pair \<open>(value, error)\<close> of the source is the sum
  \<open>error + value\<close>.
\<close>

definition GetIntParam :: "params \<Rightarrow> string \<Rightarrow> bool \<Rightarrow> int \<Rightarrow> string + int" where
  "GetIntParam ps key required defaultValue =
     (case ps key of
        None \<Rightarrow>
          if required then Inl (''missing required parameter: '' @ key)
          else Inr defaultValue
      | Some v \<Rightarrow>
          (case v of
             VFloat64 n \<Rightarrow> Inr (int_of_float64 n)
           | VInt n \<Rightarrow> Inr n
           | VInt64 n \<Rightarrow> Inr n
           | _ \<Rightarrow> Inl (''parameter '' @ key @ '' must be an integer'')))"

definition GetStringParam :: "params \<Rightarrow> string \<Rightarrow> bool \<Rightarrow> string + string" where
  "GetStringParam ps key required =
     (case ps key of
        None \<Rightarrow>
          if required then Inl (''missing required parameter: '' @ key) else Inr ''''
      | Some v \<Rightarrow>
          (case v of
             VString s \<Rightarrow> Inr s
           | _ \<Rightarrow> Inl (''parameter '' @ key @ '' must be a string'')))"

section \<open>The protocol server (package mcp)\<close>

text \<open>
  Record fields carry the name of the Go field after a prefix that names the struct
  (\<open>tool_Name\<close> is \<open>Tool.Name\<close>, \<open>resp_ID\<close> is \<open>Response.ID\<close>), since several structs share
  field names.

  A \<open>context.Context\<close> is observed through \<open>ctx.Err()\<close>: not done, cancelled, or past its
  deadline.
\<close>

datatype "context" = Active | Canceled | DeadlineExceeded

fun ctx_Err :: "context \<Rightarrow> string option" where
  "ctx_Err Active = None"
| "ctx_Err Canceled = Some ''context canceled''"
| "ctx_Err DeadlineExceeded = Some ''context deadline exceeded''"

record ContentBlock =
  cb_Type :: string
  cb_Text :: string

record ToolResult =
  tr_Content :: "ContentBlock list"
  tr_IsError :: bool

text \<open>
  A handler is a Go closure over the state of its tool module (the command executor, the
  file system, ...). That state is the type parameter \<open>'w\<close>: a handler reads and updates it
  and returns either an error (\<open>Inl\<close>, the error's message) or a result.
\<close>

type_synonym 'w ToolHandler = "context \<Rightarrow> params \<Rightarrow> 'w \<Rightarrow> (string + ToolResult) \<times> 'w"

record 'w Tool =
  tool_Name :: string
  tool_Description :: string
  tool_InputSchema :: "(string \<times> go_value) list"
  tool_Handler :: "'w ToolHandler"

record Request =
  req_JSONRPC :: string
  req_ID :: go_value
  req_Method :: string
  req_Params :: string

record RPCError =
  err_Code :: int
  err_Message :: string
  err_Data :: go_value

text \<open>
  \<open>Response.Result\<close> is an \<open>interface{}\<close> that holds either a \<open>map[string]interface{}\<close>
  (initialize, tools/list) or a \<open>*ToolResult\<close> (tools/call); \<open>None\<close> is the nil that
  \<open>omitempty\<close> leaves out of the envelope.
\<close>

datatype result_value = ResultMap "(string \<times> go_value) list" | ResultTool ToolResult

record Response =
  resp_JSONRPC :: string
  resp_ID :: go_value
  resp_Result :: "result_value option"
  resp_Error :: "RPCError option"

text \<open>
  The registry \<open>tools map[string]*Tool\<close> is an association list with one entry per key:
  \<open>s.tools[k] = v\<close> is \<open>AList.update\<close>, a lookup is \<open>map_of\<close>. Go ranges over a map in an
  unspecified order; the list's order stands for one such order and no theorem depends on
  it. \<open>srv_output\<close> is what has been written to \<open>s.output\<close>, one envelope per line. The
  lock \<open>mu\<close> has no counterpart: registration and dispatch run on one thread.
\<close>

record 'w Server =
  srv_name :: string
  srv_version :: string
  srv_tools :: "(string \<times> 'w Tool) list"
  srv_output :: "Response list"

text \<open>
  \<open>encoding/json\<close> is not part of the repository. Its two uses are parameters of the
  model: decoding a frame into a \<open>Request\<close>, and decoding \<open>Request.Params\<close> into the name
  and the argument map of a tools/call. Each returns the error's message on failure.
\<close>

record json_Unmarshal =
  unmarshal_Request :: "string \<Rightarrow> string + Request"
  unmarshal_CallParams :: "string \<Rightarrow> string + (string \<times> params)"

definition NewServer :: "string \<Rightarrow> string \<Rightarrow> 'w Server" where
  "NewServer name version =
     \<lparr>srv_name = name, srv_version = version, srv_tools = [], srv_output = []\<rparr>"

definition RegisterTool :: "'w Tool \<Rightarrow> 'w Server \<Rightarrow> 'w Server" where
  "RegisterTool tool s = s\<lparr>srv_tools := AList.update (tool_Name tool) tool (srv_tools s)\<rparr>"

text \<open>
  \<open>send\<close> marshals the envelope and writes it as one line. Marshalling cannot fail on the
  values built here (strings, numbers, maps and slices of them), so the early return of
  the source is never taken.
\<close>

definition send :: "Response \<Rightarrow> 'w Server \<Rightarrow> 'w Server" where
  "send resp s = s\<lparr>srv_output := srv_output s @ [resp]\<rparr>"

definition sendResult :: "go_value \<Rightarrow> result_value \<Rightarrow> 'w Server \<Rightarrow> 'w Server" where
  "sendResult ident result s =
     send \<lparr>resp_JSONRPC = ''2.0'', resp_ID = ident, resp_Result = Some result,
           resp_Error = None\<rparr> s"

definition sendError :: "go_value \<Rightarrow> int \<Rightarrow> string \<Rightarrow> string \<Rightarrow> 'w Server \<Rightarrow> 'w Server" where
  "sendError ident code message data s =
     send \<lparr>resp_JSONRPC = ''2.0'', resp_ID = ident, resp_Result = None,
           resp_Error = Some \<lparr>err_Code = code, err_Message = message,
                              err_Data = VString data\<rparr>\<rparr> s"

definition handleInitialize :: "Request \<Rightarrow> 'w Server \<Rightarrow> 'w Server" where
  "handleInitialize req s =
     sendResult (req_ID req)
       (ResultMap
          [(''protocolVersion'', VString ''2024-11-05''),
           (''capabilities'', VMap [(''tools'', VMap [])]),
           (''serverInfo'',
              VMap [(''name'', VString (srv_name s)), (''version'', VString (srv_version s))])])
       s"

definition tool_entry :: "'w Tool \<Rightarrow> go_value" where
  "tool_entry tool =
     VMap [(''name'', VString (tool_Name tool)),
           (''description'', VString (tool_Description tool)),
           (''inputSchema'', VMap (tool_InputSchema tool))]"

definition handleToolsList :: "Request \<Rightarrow> 'w Server \<Rightarrow> 'w Server" where
  "handleToolsList req s =
     sendResult (req_ID req)
       (ResultMap [(''tools'', VArray (map (\<lambda>(k, tool). tool_entry tool) (srv_tools s)))]) s"

definition handleToolsCall ::
    "json_Unmarshal \<Rightarrow> context \<Rightarrow> Request \<Rightarrow> 'w Server \<times> 'w \<Rightarrow> 'w Server \<times> 'w" where
  "handleToolsCall js ctx req st =
     (case st of (s, w) \<Rightarrow>
        (case unmarshal_CallParams js (req_Params req) of
           Inl err \<Rightarrow> (sendError (req_ID req) (- 32602) ''Invalid params'' err s, w)
         | Inr (name, arguments) \<Rightarrow>
             (case map_of (srv_tools s) name of
                None \<Rightarrow> (sendError (req_ID req) (- 32602) ''Unknown tool'' name s, w)
              | Some tool \<Rightarrow>
                  (case tool_Handler tool ctx arguments w of
                     (Inl err, w') \<Rightarrow>
                       (sendResult (req_ID req)
                          (ResultTool \<lparr>tr_Content = [\<lparr>cb_Type = ''text'', cb_Text = err\<rparr>],
                                       tr_IsError = True\<rparr>) s, w')
                   | (Inr result, w') \<Rightarrow>
                       (sendResult (req_ID req) (ResultTool result) s, w')))))"

definition handleRequest ::
    "json_Unmarshal \<Rightarrow> context \<Rightarrow> Request \<Rightarrow> 'w Server \<times> 'w \<Rightarrow> 'w Server \<times> 'w" where
  "handleRequest js ctx req st =
     (if req_Method req = ''initialize'' then (handleInitialize req (fst st), snd st)
      else if req_Method req = ''tools/list'' then (handleToolsList req (fst st), snd st)
      else if req_Method req = ''tools/call'' then handleToolsCall js ctx req st
      else if req_Method req = ''notifications/initialized'' then st
      else (sendError (req_ID req) (- 32601) ''Method not found'' (req_Method req) (fst st),
            snd st))"

text \<open>
  \<open>Run\<close>. The scanner delivers the frames of the input one by one; with each frame comes
  the state of \<open>ctx\<close> that the \<open>select\<close> at the head of that iteration observes. When the
  scanner stops, \<open>scanner.Err()\<close> is \<open>None\<close> at the end of the input and an error otherwise
  (a frame beyond the buffer's limit, a failed read). The result is the error \<open>Run\<close>
  returns and the state it leaves.
\<close>

fun Run ::
    "json_Unmarshal \<Rightarrow> (context \<times> string) list \<Rightarrow> string option \<Rightarrow> 'w Server \<times> 'w
      \<Rightarrow> string option \<times> ('w Server \<times> 'w)" where
  "Run js [] scanner_Err st = (scanner_Err, st)"
| "Run js ((ctx, line) # rest) scanner_Err st =
     (case ctx_Err ctx of
        Some e \<Rightarrow> (Some e, st)
      | None \<Rightarrow>
          if length line = 0 then Run js rest scanner_Err st
          else
            (case unmarshal_Request js line of
               Inl err \<Rightarrow>
                 Run js rest scanner_Err
                   (sendError VNil (- 32700) ''Parse error'' err (fst st), snd st)
             | Inr req \<Rightarrow> Run js rest scanner_Err (handleRequest js ctx req st)))"

text \<open>A sequence of \<open>RegisterTool\<close> calls, as the \<open>RegisterTools\<close> method of a tool module performs
  at startup.\<close>

definition register_all :: "'w Tool list \<Rightarrow> 'w Server \<Rightarrow> 'w Server" where
  "register_all ts s = foldl (\<lambda>s' tool. RegisterTool tool s') s ts"

text \<open>
  Notions used to state the properties of the server: the invariant of a registry built by
  \<open>RegisterTool\<close> (one entry per key, each stored under its tool's name), the name an entry
  of a tools/list result carries, the envelopes that are parse errors, and the frames
  that are not empty and fail to decode.
\<close>

definition registry_ok :: "'w Server \<Rightarrow> bool" where
  "registry_ok s =
     (distinct (map fst (srv_tools s))
      \<and> list_all (\<lambda>(k, tool). tool_Name tool = k) (srv_tools s))"

fun entry_name :: "go_value \<Rightarrow> go_value option" where
  "entry_name (VMap kvs) = map_of kvs ''name''"
| "entry_name v = None"

definition is_parse_error :: "Response \<Rightarrow> bool" where
  "is_parse_error r =
     (case resp_Error r of None \<Rightarrow> False | Some e \<Rightarrow> err_Code e = - 32700)"

definition malformed :: "json_Unmarshal \<Rightarrow> string \<Rightarrow> bool" where
  "malformed js line = (line \<noteq> [] \<and> isl (unmarshal_Request js line))"

definition parse_error_response :: "string \<Rightarrow> Response" where
  "parse_error_response err =
     \<lparr>resp_JSONRPC = ''2.0'', resp_ID = VNil, resp_Result = None,
      resp_Error = Some \<lparr>err_Code = - 32700, err_Message = ''Parse error'',
                         err_Data = VString err\<rparr>\<rparr>"

definition TextResult :: "string \<Rightarrow> ToolResult" where
  "TextResult text = \<lparr>tr_Content = [\<lparr>cb_Type = ''text'', cb_Text = text\<rparr>], tr_IsError = False\<rparr>"

text \<open>
  Concrete instances for evaluating the server: a decoder that stands in for
  \<open>encoding/json\<close> on a handful of frames, and two tools of the shape the tool modules
  register. \<open>counter_tool\<close> reads a required integer argument with \<open>GetIntParam\<close> and
  returns the helper's error when there is one, as the handlers of the repository do;
  \<open>echo_tool\<close> answers with a fixed text.
\<close>

definition example_json :: json_Unmarshal where
  "example_json =
     \<lparr>unmarshal_Request = (\<lambda>line.
        if line = ''list'' then
          Inr \<lparr>req_JSONRPC = ''2.0'', req_ID = VFloat64 1, req_Method = ''tools/list'',
               req_Params = ''''\<rparr>
        else if line = ''call'' then
          Inr \<lparr>req_JSONRPC = ''2.0'', req_ID = VFloat64 2, req_Method = ''tools/call'',
               req_Params = ''counter''\<rparr>
        else Inl ''invalid character''),
      unmarshal_CallParams = (\<lambda>raw.
        if raw = ''counter'' then Inr (''counter'', [''count'' \<mapsto> VString ''seven''])
        else if raw = ''echo'' then Inr (''echo'', Map.empty)
        else Inl ''unexpected end of JSON input'')\<rparr>"

definition counter_tool :: "unit Tool" where
  "counter_tool =
     \<lparr>tool_Name = ''counter'', tool_Description = ''Count to a number'',
      tool_InputSchema = [(''type'', VString ''object'')],
      tool_Handler = (\<lambda>ctx ps w.
        case GetIntParam ps ''count'' True 0 of
          Inl err \<Rightarrow> (Inl err, w)
        | Inr n \<Rightarrow> (Inr (TextResult ''done''), w))\<rparr>"

definition echo_tool :: "string \<Rightarrow> unit Tool" where
  "echo_tool text =
     \<lparr>tool_Name = ''echo'', tool_Description = ''Echo back the input'',
      tool_InputSchema = [(''type'', VString ''object'')],
      tool_Handler = (\<lambda>ctx ps w. (Inr (TextResult text), w))\<rparr>"

section \<open>The command executor (package command)\<close>

text \<open>
  Of \<open>config.CommandConfig\<close> the executor reads the default timeout, the output ceiling
  and the working directory.
\<close>

record CommandConfig =
  cfg_DefaultTimeoutSeconds :: int
  cfg_MaxOutputSizeBytes :: int
  cfg_WorkingDirectory :: string

record CommandResult =
  res_ExitCode :: int
  res_Stdout :: string
  res_Stderr :: string
  res_DurationMs :: int
  res_CommandID :: string

text \<open>
  \<open>os/exec\<close> and the operating system are outside the repository. What they report to the
  executor is an input of the model. The error of \<open>cmd.Run()\<close> or \<open>cmd.Wait()\<close> is nil
  (\<open>None\<close>), an \<open>*exec.ExitError\<close> with its \<open>ExitCode()\<close>, or another error with its
  message. A synchronous run under a deadline of so many seconds ends with the two capture
  buffers, that error, the state of the deadline context and the time it took.
\<close>

datatype run_error = ExitError int | OtherError string

record run_outcome =
  run_stdout :: string
  run_stderr :: string
  run_err :: "run_error option"
  run_ctx :: "context"
  run_duration_ms :: int

text \<open>
  The slice expression \<open>s[:n]\<close> panics unless \<open>0 \<le> n \<le> len(s)\<close>; \<open>None\<close> is the panic.
  A Go string is a sequence of bytes, as an Isabelle \<open>string\<close> is.
\<close>

definition slice_to :: "string \<Rightarrow> int \<Rightarrow> string option" where
  "slice_to s n = (if 0 \<le> n \<and> n \<le> int (length s) then Some (take (nat n) s) else None)"

definition truncation_marker :: string where
  "truncation_marker = CHR 0x0A # ''... (truncated)''"

text \<open>The two \<open>if\<close> statements that close \<open>RunSync\<close>, for one stream.\<close>

definition truncate_output :: "int \<Rightarrow> string \<Rightarrow> string option" where
  "truncate_output maxOutputSizeBytes s =
     (if int (length s) > maxOutputSizeBytes
      then map_option (\<lambda>p. p @ truncation_marker) (slice_to s maxOutputSizeBytes)
      else Some s)"

text \<open>
  \<open>RunSync\<close>. The command, its arguments, directory and environment decide what the
  subprocess does; they are represented by \<open>run\<close>, which gives the outcome of running it
  under a deadline of the given number of seconds. The result is \<open>None\<close> when a slice
  expression panics; the error result of the source is always nil.
\<close>

definition RunSync :: "CommandConfig \<Rightarrow> (int \<Rightarrow> run_outcome) \<Rightarrow> int \<Rightarrow> CommandResult option" where
  "RunSync cfg run timeoutSeconds =
     (let timeoutSeconds =
            (if timeoutSeconds \<le> 0 then cfg_DefaultTimeoutSeconds cfg else timeoutSeconds);
          out = run timeoutSeconds;
          result = \<lparr>res_ExitCode = 0, res_Stdout = run_stdout out, res_Stderr = run_stderr out,
                    res_DurationMs = run_duration_ms out, res_CommandID = ''''\<rparr>;
          result =
            (case run_err out of
               None \<Rightarrow> result
             | Some (ExitError code) \<Rightarrow> result\<lparr>res_ExitCode := code\<rparr>
             | Some (OtherError msg) \<Rightarrow>
                 if run_ctx out = DeadlineExceeded
                 then result\<lparr>res_ExitCode := - 1, res_Stderr := ''command timed out''\<rparr>
                 else result\<lparr>res_ExitCode := - 1, res_Stderr := msg\<rparr>)
      in case truncate_output (cfg_MaxOutputSizeBytes cfg) (res_Stdout result) of
           None \<Rightarrow> None
         | Some out_text \<Rightarrow>
             (case truncate_output (cfg_MaxOutputSizeBytes cfg) (res_Stderr result) of
                None \<Rightarrow> None
              | Some err_text \<Rightarrow>
                  Some (result\<lparr>res_Stdout := out_text, res_Stderr := err_text\<rparr>)))"

text \<open>
  An asynchronous command. A \<open>time.Time\<close> is a number of milliseconds, \<open>0\<close> being the zero
  time that \<open>IsZero\<close> tests for. \<open>cmd_Cancelled\<close> records that the \<open>Cancel\<close> function has
  been called, which makes \<open>os/exec\<close> kill the subprocess. The table \<open>asyncCommands\<close> (a
  \<open>sync.Map\<close>) is a map from ids to commands; the table holds pointers, so what the
  watcher and \<open>CancelCommand\<close> write to a command is written to the table's entry.
\<close>

record AsyncCommand =
  cmd_ID :: string
  cmd_Stdout :: string
  cmd_Stderr :: string
  cmd_StartTime :: nat
  cmd_EndTime :: nat
  cmd_Status :: string
  cmd_ExitCode :: int
  cmd_Cancelled :: bool

record Executor =
  exec_config :: CommandConfig
  exec_asyncCommands :: "string \<rightharpoonup> AsyncCommand"

definition NewExecutor :: "CommandConfig \<Rightarrow> Executor" where
  "NewExecutor cfg = \<lparr>exec_config = cfg, exec_asyncCommands = Map.empty\<rparr>"

text \<open>
  \<open>RunAsync\<close>, up to the start of the watcher. \<open>uuid\<close> is \<open>uuid.New().String()\<close>, \<open>now\<close> is
  \<open>time.Now()\<close> and \<open>start_err\<close> is the result of \<open>cmd.Start()\<close>. The result is the pair
  \<open>(id, error)\<close> as a sum, with the table as it is afterwards. \<open>new_AsyncCommand\<close> is the
  struct literal that \<open>RunAsync\<close> builds before it starts the subprocess.
\<close>

definition new_AsyncCommand :: "string \<Rightarrow> nat \<Rightarrow> AsyncCommand" where
  "new_AsyncCommand uuid now =
     \<lparr>cmd_ID = uuid, cmd_Stdout = [], cmd_Stderr = [], cmd_StartTime = now,
      cmd_EndTime = 0, cmd_Status = ''running'', cmd_ExitCode = 0, cmd_Cancelled = False\<rparr>"

definition RunAsync ::
    "Executor \<Rightarrow> string \<Rightarrow> nat \<Rightarrow> string option \<Rightarrow> (string + string) \<times> Executor" where
  "RunAsync e uuid now start_err =
     (let asyncCmd = new_AsyncCommand uuid now
      in case start_err of
           Some err \<Rightarrow> (Inl err, e)
         | None \<Rightarrow>
             (Inr (cmd_ID asyncCmd),
              e\<lparr>exec_asyncCommands := (exec_asyncCommands e)(cmd_ID asyncCmd \<mapsto> asyncCmd)\<rparr>))"

text \<open>
  The watcher goroutine that \<open>RunAsync\<close> starts: \<open>err\<close> is what \<open>cmd.Wait()\<close> returned and
  \<open>now\<close> the \<open>time.Now()\<close> it reads. It assigns \<open>EndTime\<close>, then \<open>ExitCode\<close>, then \<open>Status\<close>;
  the value of the last two depends on \<open>err\<close> alone.
\<close>

fun watcher_ExitCode :: "run_error option \<Rightarrow> int" where
  "watcher_ExitCode (Some (ExitError code)) = code"
| "watcher_ExitCode (Some (OtherError msg)) = - 1"
| "watcher_ExitCode None = 0"

fun watcher_Status :: "run_error option \<Rightarrow> string" where
  "watcher_Status (Some (ExitError code)) = ''failed''"
| "watcher_Status (Some (OtherError msg)) = ''cancelled''"
| "watcher_Status None = ''completed''"

definition watcher :: "run_error option \<Rightarrow> nat \<Rightarrow> AsyncCommand \<Rightarrow> AsyncCommand" where
  "watcher err now asyncCmd =
     asyncCmd\<lparr>cmd_EndTime := now, cmd_ExitCode := watcher_ExitCode err,
              cmd_Status := watcher_Status err\<rparr>"

definition watcher_runs :: "string \<Rightarrow> run_error option \<Rightarrow> nat \<Rightarrow> Executor \<Rightarrow> Executor" where
  "watcher_runs commandID err now e =
     (case exec_asyncCommands e commandID of
        None \<Rightarrow> e
      | Some asyncCmd \<Rightarrow>
          e\<lparr>exec_asyncCommands := (exec_asyncCommands e)(commandID \<mapsto> watcher err now asyncCmd)\<rparr>)"

definition GetStatus :: "Executor \<Rightarrow> string \<Rightarrow> AsyncCommand option" where
  "GetStatus e commandID = exec_asyncCommands e commandID"

definition CancelCommand :: "Executor \<Rightarrow> string \<Rightarrow> bool \<times> Executor" where
  "CancelCommand e commandID =
     (case exec_asyncCommands e commandID of
        Some asyncCmd \<Rightarrow>
          if cmd_Status asyncCmd = ''running''
          then (True,
                e\<lparr>exec_asyncCommands := (exec_asyncCommands e)
                     (commandID \<mapsto> asyncCmd\<lparr>cmd_Cancelled := True, cmd_Status := ''cancelled''\<rparr>)\<rparr>)
          else (False, e)
      | None \<Rightarrow> (False, e))"

section \<open>The status handler and the watcher's assignments\<close>

text \<open>
  \<open>handleGetCommandStatus\<close> (package command). The result is the map the handler hands to
  \<open>JSONResult\<close>: the id, the status, the exit code and the two buffers, and either
  \<open>duration_ms\<close> (when \<open>EndTime\<close> is not the zero time) or \<open>elapsed_ms\<close>, for which the
  source takes \<open>StartTime.Unix()\<close>, a number of seconds. The handler reads the fields of the
  command with no lock.
\<close>

record status_result =
  st_command_id :: string
  st_status :: string
  st_exit_code :: int
  st_stdout :: string
  st_stderr :: string
  st_duration_ms :: "int option"
  st_elapsed_ms :: "int option"

definition handleGetCommandStatus :: "Executor \<Rightarrow> params \<Rightarrow> string + status_result" where
  "handleGetCommandStatus e ps =
     (case GetStringParam ps ''command_id'' True of
        Inl err \<Rightarrow> Inl err
      | Inr commandID \<Rightarrow>
          (case GetStatus e commandID of
             None \<Rightarrow> Inl (''command not found: '' @ commandID)
           | Some asyncCmd \<Rightarrow>
               Inr \<lparr>st_command_id = cmd_ID asyncCmd, st_status = cmd_Status asyncCmd,
                    st_exit_code = cmd_ExitCode asyncCmd, st_stdout = cmd_Stdout asyncCmd,
                    st_stderr = cmd_Stderr asyncCmd,
                    st_duration_ms =
                      (if cmd_EndTime asyncCmd \<noteq> 0
                       then Some (int (cmd_EndTime asyncCmd) - int (cmd_StartTime asyncCmd))
                       else None),
                    st_elapsed_ms =
                      (if cmd_EndTime asyncCmd \<noteq> 0 then None
                       else Some (int (cmd_StartTime asyncCmd) div 1000))\<rparr>))"

text \<open>
  The watcher goroutine runs beside the dispatch loop, and its three assignments are three
  plain stores. \<open>watcher_before_Status\<close> is the command after the first two of them
  (\<open>EndTime\<close> and \<open>ExitCode\<close>), while the assignment of \<open>Status\<close> is still to come;
  \<open>watcher_pauses\<close> is the table at that moment.
\<close>

definition watcher_before_Status :: "run_error option \<Rightarrow> nat \<Rightarrow> AsyncCommand \<Rightarrow> AsyncCommand" where
  "watcher_before_Status err now asyncCmd =
     asyncCmd\<lparr>cmd_EndTime := now, cmd_ExitCode := watcher_ExitCode err\<rparr>"

definition watcher_pauses :: "string \<Rightarrow> run_error option \<Rightarrow> nat \<Rightarrow> Executor \<Rightarrow> Executor" where
  "watcher_pauses commandID err now e =
     (case exec_asyncCommands e commandID of
        None \<Rightarrow> e
      | Some asyncCmd \<Rightarrow>
          e\<lparr>exec_asyncCommands :=
               (exec_asyncCommands e)(commandID \<mapsto> watcher_before_Status err now asyncCmd)\<rparr>)"

text \<open>A concrete configuration for evaluating the executor: the defaults of \<open>DefaultConfig\<close>.\<close>

definition example_config :: CommandConfig where
  "example_config =
     \<lparr>cfg_DefaultTimeoutSeconds = 300, cfg_MaxOutputSizeBytes = 10485760,
      cfg_WorkingDirectory = ''''\<rparr>"

section \<open>Parameter extraction\<close>

lemma truncate_float64_towards_zero:
  "\<bar>of_int (truncate_float64 n)\<bar> \<le> \<bar>n\<bar> \<and> \<bar>n\<bar> < \<bar>of_int (truncate_float64 n)\<bar> + 1
   \<and> 0 \<le> of_int (truncate_float64 n) * n"
proof (cases "0 \<le> n")
  case True
  then have "0 \<le> \<lfloor>n\<rfloor>" by simp
  with True show ?thesis
    unfolding truncate_float64_def by (simp add: abs_if) linarith
next
  case False
  then have neg: "n < 0" by simp
  then have "\<lceil>n\<rceil> \<le> 0" by (simp add: ceiling_le_zero)
  then have c0: "(of_int \<lceil>n\<rceil> :: rat) \<le> 0" by simp
  have c1: "n \<le> of_int \<lceil>n\<rceil>" by (rule le_of_int_ceiling)
  have c2: "of_int \<lceil>n\<rceil> < n + 1" using ceiling_correct [of n] by linarith
  have "\<bar>of_int \<lceil>n\<rceil>\<bar> \<le> \<bar>n\<bar>" using neg c0 c1 by linarith
  moreover have "\<bar>n\<bar> < \<bar>of_int \<lceil>n\<rceil>\<bar> + 1" using neg c0 c2 by linarith
  moreover have "0 \<le> of_int \<lceil>n\<rceil> * n" using neg c0 by (simp add: mult_nonpos_nonpos)
  ultimately show ?thesis
    using False by (simp add: truncate_float64_def)
qed

lemma int_of_float64_in_range:
  assumes "- (2 ^ 63) - 1 < n" and "n < 2 ^ 63"
  shows "int_of_float64 n = truncate_float64 n"
proof -
  have "- (2 ^ 63) \<le> truncate_float64 n"
  proof (cases "0 \<le> n")
    case True
    then have "0 \<le> \<lfloor>n\<rfloor>" by simp
    with True show ?thesis by (simp add: truncate_float64_def)
  next
    case False
    have "of_int (- (2 ^ 63) - 1) < n" using assms(1) by simp
    then have "- (2 ^ 63) - 1 < \<lceil>n\<rceil>" by (simp only: less_ceiling_iff)
    with False show ?thesis by (simp add: truncate_float64_def)
  qed
  moreover have "truncate_float64 n < 2 ^ 63"
  proof (cases "0 \<le> n")
    case True
    have "n < of_int (2 ^ 63)" using assms(2) by simp
    then have "\<lfloor>n\<rfloor> < 2 ^ 63" by (simp only: floor_less_iff)
    with True show ?thesis by (simp add: truncate_float64_def)
  next
    case False
    then have "\<lceil>n\<rceil> \<le> 0" by (simp add: ceiling_le_zero)
    with False show ?thesis by (simp add: truncate_float64_def)
  qed
  ultimately show ?thesis by (simp add: int_of_float64_def Let_def)
qed

text \<open>
  Claim C10, as the code has it. \<open>GetIntParam\<close> accepts a present value of dynamic type
  float64, int or int64. An int or int64 is returned as it is; a float64 that fits the 64-bit int is converted by
  truncation towards zero (the result \<open>r\<close> has \<open>|r| \<le> |n| < |r| + 1\<close> and the sign of \<open>n\<close>),
  so a fractional number is accepted, not rejected. A present value of any other dynamic
  type gives the error "parameter K must be an integer", and that error arises in no other
  way. An absent key gives the caller's default when the parameter is optional and the
  error "missing required parameter: K" when it is required.
\<close>

theorem GetIntParam_contract:
  "(ps key = None \<longrightarrow>
      GetIntParam ps key required d =
        (if required then Inl (''missing required parameter: '' @ key) else Inr d))
   \<and> (ps key = Some (VInt i) \<longrightarrow> GetIntParam ps key required d = Inr i)
   \<and> (ps key = Some (VInt64 i) \<longrightarrow> GetIntParam ps key required d = Inr i)
   \<and> (ps key = Some (VFloat64 n) \<and> - (2 ^ 63) - 1 < n \<and> n < 2 ^ 63 \<longrightarrow>
        (\<exists>r. GetIntParam ps key required d = Inr r
           \<and> \<bar>of_int r\<bar> \<le> \<bar>n\<bar> \<and> \<bar>n\<bar> < \<bar>of_int r\<bar> + 1 \<and> 0 \<le> of_int r * n))
   \<and> (ps key = Some v \<and> type_of v \<notin> {TFloat64, TInt, TInt64} \<longrightarrow>
        GetIntParam ps key required d = Inl (''parameter '' @ key @ '' must be an integer''))
   \<and> (GetIntParam ps key required d = Inl (''parameter '' @ key @ '' must be an integer'') \<longrightarrow>
        (\<exists>w. ps key = Some w \<and> type_of w \<notin> {TFloat64, TInt, TInt64}))"
proof (intro conjI impI)
  assume "ps key = None"
  then show "GetIntParam ps key required d =
      (if required then Inl (''missing required parameter: '' @ key) else Inr d)"
    by (simp add: GetIntParam_def)
next
  assume "ps key = Some (VInt i)"
  then show "GetIntParam ps key required d = Inr i" by (simp add: GetIntParam_def)
next
  assume "ps key = Some (VInt64 i)"
  then show "GetIntParam ps key required d = Inr i" by (simp add: GetIntParam_def)
next
  assume a: "ps key = Some (VFloat64 n) \<and> - (2 ^ 63) - 1 < n \<and> n < 2 ^ 63"
  then have "GetIntParam ps key required d = Inr (truncate_float64 n)"
    by (simp add: GetIntParam_def int_of_float64_in_range)
  with truncate_float64_towards_zero [of n]
  show "\<exists>r. GetIntParam ps key required d = Inr r
           \<and> \<bar>of_int r\<bar> \<le> \<bar>n\<bar> \<and> \<bar>n\<bar> < \<bar>of_int r\<bar> + 1 \<and> 0 \<le> of_int r * n"
    by blast
next
  assume "ps key = Some v \<and> type_of v \<notin> {TFloat64, TInt, TInt64}"
  then show "GetIntParam ps key required d = Inl (''parameter '' @ key @ '' must be an integer'')"
    by (cases v) (simp_all add: GetIntParam_def)
next
  assume e: "GetIntParam ps key required d = Inl (''parameter '' @ key @ '' must be an integer'')"
  show "\<exists>w. ps key = Some w \<and> type_of w \<notin> {TFloat64, TInt, TInt64}"
  proof (cases "ps key")
    case None
    with e show ?thesis by (simp add: GetIntParam_def split: if_splits)
  next
    case (Some w)
    with e show ?thesis by (cases w) (simp_all add: GetIntParam_def)
  qed
qed

theorem GetIntParam_contract_witness:
  "GetIntParam Map.empty ''count'' True 0 = Inl ''missing required parameter: count''
   \<and> GetIntParam Map.empty ''count'' False 100 = Inr 100
   \<and> GetIntParam [''count'' \<mapsto> VInt 42] ''count'' True 0 = Inr 42
   \<and> GetIntParam [''count'' \<mapsto> VInt64 (- 10)] ''count'' True 0 = Inr (- 10)
   \<and> GetIntParam [''count'' \<mapsto> VFloat64 (- 7 / 2)] ''count'' True 0 = Inr (- 3)
   \<and> GetIntParam [''count'' \<mapsto> VFloat64 (7 / 2)] ''count'' True 0 = Inr 3
   \<and> GetIntParam [''count'' \<mapsto> VString ''7''] ''count'' True 0
        = Inl ''parameter count must be an integer''"
proof -
  have "\<lceil>- (7 / 2) :: rat\<rceil> = - 3" by (rule ceiling_unique) simp_all
  moreover have "\<lfloor>7 / 2 :: rat\<rfloor> = 3" by (rule floor_unique) simp_all
  ultimately have trunc: "truncate_float64 (- (7 / 2)) = - 3" "truncate_float64 (7 / 2) = 3"
    by (simp_all add: truncate_float64_def)
  note absent = GetIntParam_contract [of Map.empty "''count''" _ _ 0 0 VNil]
  note present = GetIntParam_contract [of "[''count'' \<mapsto> v]" "''count''" True 0 42 "- 7 / 2" v for v]
  show ?thesis
    using absent [of True 0] absent [of False 100]
      present [of "VInt 42"]
      GetIntParam_contract [of "[''count'' \<mapsto> VInt64 (- 10)]" "''count''" True 0 "- 10" 0 VNil]
      present [of "VFloat64 (- 7 / 2)"]
      GetIntParam_contract [of "[''count'' \<mapsto> VFloat64 (7 / 2)]" "''count''" True 0 0 "7 / 2" VNil]
      present [of "VString ''7''"]
    by (simp add: GetIntParam_def int_of_float64_def Let_def trunc)
qed

text \<open>
  Claim C10 as it is written, for every float64, fails where the truncated value does not
  fit the 64-bit \<open>int\<close>. The JSON number \<open>1e19\<close> decodes to the float64 \<open>10^19\<close>; it is
  accepted, and the result is \<open>-2^63\<close>, which is not \<open>10^19\<close> with its fraction discarded:
  it has the other sign and another magnitude.
\<close>

theorem GetIntParam_float64_out_of_range_counterexample:
  "GetIntParam [''count'' \<mapsto> VFloat64 (10 ^ 19)] ''count'' True 0 = Inr (- (2 ^ 63))
   \<and> \<not> (\<bar>of_int (- (2 ^ 63)) :: rat\<bar> \<le> \<bar>10 ^ 19\<bar>
          \<and> \<bar>10 ^ 19 :: rat\<bar> < \<bar>of_int (- (2 ^ 63))\<bar> + 1
          \<and> 0 \<le> (of_int (- (2 ^ 63)) :: rat) * 10 ^ 19)"
proof -
  have "\<lfloor>10 ^ 19 :: rat\<rfloor> = 10 ^ 19" by (rule floor_unique) simp_all
  then have "truncate_float64 (10 ^ 19) = 10 ^ 19" by (simp add: truncate_float64_def)
  then show ?thesis by (simp add: GetIntParam_def int_of_float64_def Let_def)
qed

section \<open>The tool registry\<close>

lemma register_all_snoc: "register_all (ts @ [t]) s = RegisterTool t (register_all ts s)"
  by (simp add: register_all_def)

lemma registry_ok_NewServer: "registry_ok (NewServer n v)"
  by (simp add: registry_ok_def NewServer_def)

lemma set_update_subset: "set (AList.update k v al) \<subseteq> insert (k, v) (set al)"
  by (induction al) auto

lemma registry_ok_RegisterTool: "registry_ok s \<Longrightarrow> registry_ok (RegisterTool t s)"
  using set_update_subset [of "tool_Name t" t "srv_tools s"]
  by (auto simp: registry_ok_def RegisterTool_def distinct_update list_all_iff)

lemma registry_ok_register_all: "registry_ok s \<Longrightarrow> registry_ok (register_all ts s)"
  by (induction ts arbitrary: s) (simp_all add: register_all_def registry_ok_RegisterTool)

lemma filter_key_distinct:
  "distinct (map fst al) \<Longrightarrow> map_of al k = Some v \<Longrightarrow> filter (\<lambda>(k', v'). k' = k) al = [(k, v)]"
proof (induction al)
  case Nil
  then show ?case by simp
next
  case (Cons a al)
  obtain k' v' where a: "a = (k', v')" by (cases a)
  show ?case
  proof (cases "k' = k")
    case True
    with Cons.prems a have "v' = v" by simp
    moreover have "filter (\<lambda>(k', v'). k' = k) al = []"
      using Cons.prems True a by (auto simp: filter_empty_conv image_iff)
    ultimately show ?thesis using a True by simp
  next
    case False
    with Cons a show ?thesis by simp
  qed
qed

lemma lookup_RegisterTool: "map_of (srv_tools (RegisterTool t s)) (tool_Name t) = Some t"
  by (simp add: RegisterTool_def update_conv')

lemma entry_name_tool_entry: "entry_name (tool_entry t) = Some (VString (tool_Name t))"
  by (simp add: tool_entry_def)

lemma listed_once:
  assumes ok: "registry_ok s" and look: "map_of (srv_tools s) n = Some t"
  shows "filter (\<lambda>e. entry_name e = Some (VString n))
           (map (\<lambda>(k, tool). tool_entry tool) (srv_tools s)) = [tool_entry t]"
proof -
  have "filter ((\<lambda>e. entry_name e = Some (VString n)) \<circ> (\<lambda>(k, tool). tool_entry tool)) (srv_tools s)
        = filter (\<lambda>(k, tool). k = n) (srv_tools s)"
    using ok by (intro filter_cong) (auto simp: registry_ok_def list_all_iff entry_name_tool_entry)
  also have "\<dots> = [(n, t)]"
    using ok look by (simp add: registry_ok_def filter_key_distinct)
  finally show ?thesis by (simp add: filter_map)
qed

text \<open>
  Claim C9. Registering two tools of the same name is not rejected: \<open>RegisterTool\<close> has no
  error result, and the later registration takes the earlier one's place. Let \<open>t1\<close> be any
  tool registered before \<open>t2\<close> (other registrations may lie before and between them), with
  the name of \<open>t2\<close>. Right after \<open>t2\<close> is registered the registry has exactly one entry under
  that name, the entry is \<open>t2\<close>, no entry of that name holds another tool, the tools/list
  result has exactly one entry with that name, which describes \<open>t2\<close>, and a tools/call of
  that name runs the handler of \<open>t2\<close>.
\<close>

theorem RegisterTool_same_name_replaces:
  assumes "t1 \<in> set ts" and "tool_Name t1 = tool_Name t2"
  shows "(let s = RegisterTool t2 (register_all ts (NewServer nm ver)) in
      filter (\<lambda>(k, tool). k = tool_Name t2) (srv_tools s) = [(tool_Name t2, t2)]
    \<and> map_of (srv_tools s) (tool_Name t1) = Some t2
    \<and> (\<forall>(k, tool) \<in> set (srv_tools s). tool_Name tool = tool_Name t1 \<longrightarrow> tool = t2)
    \<and> (\<exists>es. handleToolsList req s =
          sendResult (req_ID req) (ResultMap [(''tools'', VArray es)]) s
        \<and> filter (\<lambda>e. entry_name e = Some (VString (tool_Name t1))) es = [tool_entry t2])
    \<and> (unmarshal_CallParams js (req_Params req) = Inr (tool_Name t1, args) \<longrightarrow>
         handleToolsCall js ctx req (s, w) =
           (sendResult (req_ID req)
              (ResultTool
                (case fst (tool_Handler t2 ctx args w) of
                   Inl err \<Rightarrow> \<lparr>tr_Content = [\<lparr>cb_Type = ''text'', cb_Text = err\<rparr>], tr_IsError = True\<rparr>
                 | Inr result \<Rightarrow> result)) s,
            snd (tool_Handler t2 ctx args w))))"
proof -
  define s where "s = RegisterTool t2 (register_all ts (NewServer nm ver))"
  have ok: "registry_ok (s :: 'a Server)"
    unfolding s_def
    by (intro registry_ok_RegisterTool registry_ok_register_all registry_ok_NewServer)
  have look: "map_of (srv_tools s) (tool_Name t2) = Some t2"
    unfolding s_def by (rule lookup_RegisterTool)
  have one: "filter (\<lambda>(k, tool). k = tool_Name t2) (srv_tools s) = [(tool_Name t2, t2)]"
    using ok look by (simp add: registry_ok_def filter_key_distinct)
  have only: "tool = t2" if "(k, tool) \<in> set (srv_tools s)" "tool_Name tool = tool_Name t2"
    for k tool
  proof -
    from ok that have "k = tool_Name t2" by (auto simp: registry_ok_def list_all_iff)
    with that have "(k, tool) \<in> set (filter (\<lambda>(k, tool). k = tool_Name t2) (srv_tools s))"
      by simp
    then show ?thesis unfolding one by simp
  qed
  have listed: "filter (\<lambda>e. entry_name e = Some (VString (tool_Name t2)))
      (map (\<lambda>(k, tool). tool_entry tool) (srv_tools s)) = [tool_entry t2]"
    using ok look by (rule listed_once)
  have call: "handleToolsCall js ctx req (s, w) =
           (sendResult (req_ID req)
              (ResultTool
                (case fst (tool_Handler t2 ctx args w) of
                   Inl err \<Rightarrow> \<lparr>tr_Content = [\<lparr>cb_Type = ''text'', cb_Text = err\<rparr>], tr_IsError = True\<rparr>
                 | Inr result \<Rightarrow> result)) s,
            snd (tool_Handler t2 ctx args w))"
    if "unmarshal_CallParams js (req_Params req) = Inr (tool_Name t2, args)"
    using that look
    by (simp add: handleToolsCall_def split: prod.splits sum.splits)
  show ?thesis
    using one look listed call only assms(2)
    unfolding Let_def s_def [symmetric]
    by (auto simp: handleToolsList_def)
qed

theorem RegisterTool_same_name_replaces_witness:
  "echo_tool ''first'' \<in> set [echo_tool ''first'', counter_tool]
   \<and> tool_Name (echo_tool ''first'') = tool_Name (echo_tool ''second'')
   \<and> srv_tools (RegisterTool (echo_tool ''second'')
        (register_all [echo_tool ''first'', counter_tool] (NewServer ''test-server'' ''1.0.0'')))
      = [(''echo'', echo_tool ''second''), (''counter'', counter_tool)]
   \<and> handleToolsCall example_json Active
        \<lparr>req_JSONRPC = ''2.0'', req_ID = VFloat64 4, req_Method = ''tools/call'',
         req_Params = ''echo''\<rparr>
        (RegisterTool (echo_tool ''second'')
           (register_all [echo_tool ''first'', counter_tool] (NewServer ''test-server'' ''1.0.0'')), ())
      = (sendResult (VFloat64 4) (ResultTool (TextResult ''second''))
           (RegisterTool (echo_tool ''second'')
             (register_all [echo_tool ''first'', counter_tool] (NewServer ''test-server'' ''1.0.0''))), ())"
  using RegisterTool_same_name_replaces
    [of "echo_tool ''first''" "[echo_tool ''first'', counter_tool]" "echo_tool ''second''"
        "''test-server''" "''1.0.0''"
        "\<lparr>req_JSONRPC = ''2.0'', req_ID = VFloat64 4, req_Method = ''tools/call'',
          req_Params = ''echo''\<rparr>" example_json Map.empty Active "()"]
  by (simp add: example_json_def register_all_def RegisterTool_def NewServer_def
        echo_tool_def counter_tool_def Let_def)

section \<open>The read loop and the dispatcher\<close>

lemma Run_append:
  "list_all (\<lambda>(c, line). c = Active) pre \<Longrightarrow>
   Run js (pre @ post) scanner_Err st = Run js post scanner_Err (snd (Run js pre None st))"
proof (induction pre arbitrary: st)
  case Nil
  then show ?case by simp
next
  case (Cons f pre)
  obtain c line where f: "f = (c, line)" by (cases f)
  with Cons.prems have c: "c = Active" and rest: "list_all (\<lambda>(c, line). c = Active) pre"
    by simp_all
  show ?case
    using Cons.IH [OF rest] by (simp add: f c split: sum.splits)
qed

lemma Run_returns_scanner_Err:
  "list_all (\<lambda>(c, line). c = Active) frames \<Longrightarrow> fst (Run js frames scanner_Err st) = scanner_Err"
proof (induction frames arbitrary: st)
  case Nil
  then show ?case by simp
next
  case (Cons f frames)
  obtain c line where f: "f = (c, line)" by (cases f)
  with Cons.prems have c: "c = Active" and rest: "list_all (\<lambda>(c, line). c = Active) frames"
    by simp_all
  show ?case
    using Cons.IH [OF rest] by (simp add: f c split: sum.splits)
qed

lemma parse_errors_send:
  "filter is_parse_error (srv_output (send r s)) =
     filter is_parse_error (srv_output s) @ (if is_parse_error r then [r] else [])"
  by (simp add: send_def)

lemma parse_errors_handleToolsCall:
  "filter is_parse_error (srv_output (fst (handleToolsCall js ctx req st)))
     = filter is_parse_error (srv_output (fst st))"
  by (cases st)
     (simp add: handleToolsCall_def sendError_def sendResult_def parse_errors_send is_parse_error_def
           split: sum.splits option.splits prod.splits)

lemma parse_errors_handleRequest:
  "filter is_parse_error (srv_output (fst (handleRequest js ctx req st)))
     = filter is_parse_error (srv_output (fst st))"
  by (simp add: handleRequest_def handleInitialize_def handleToolsList_def
        parse_errors_handleToolsCall sendError_def sendResult_def parse_errors_send
        is_parse_error_def)

lemma sendError_parse_error:
  "sendError VNil (- 32700) ''Parse error'' err s =
     s\<lparr>srv_output := srv_output s @ [parse_error_response err]\<rparr>"
  by (simp add: sendError_def send_def parse_error_response_def)

lemma is_parse_error_response: "is_parse_error (parse_error_response err)"
  by (simp add: is_parse_error_def parse_error_response_def)

lemma Run_parse_error_count:
  "list_all (\<lambda>(c, line). c = Active) frames \<Longrightarrow>
   length (filter is_parse_error (srv_output (fst (snd (Run js frames scanner_Err st)))))
     = length (filter is_parse_error (srv_output (fst st)))
       + length (filter (malformed js) (map snd frames))"
proof (induction frames arbitrary: st)
  case Nil
  then show ?case by simp
next
  case (Cons f frames)
  obtain c line where f: "f = (c, line)" by (cases f)
  with Cons.prems have c: "c = Active" and rest: "list_all (\<lambda>(c, line). c = Active) frames"
    by simp_all
  note IH = Cons.IH [OF rest]
  show ?case
  proof (cases "line = []")
    case True
    then show ?thesis using IH [of st] by (simp add: f c malformed_def)
  next
    case False
    show ?thesis
    proof (cases "unmarshal_Request js line")
      case (Inl err)
      then show ?thesis
        using False IH [of "(sendError VNil (- 32700) ''Parse error'' err (fst st), snd st)"]
        by (simp add: f c malformed_def sendError_parse_error is_parse_error_response)
    next
      case (Inr req)
      then show ?thesis
        using False IH [of "handleRequest js Active req st"]
        by (simp add: f c malformed_def parse_errors_handleRequest)
    qed
  qed
qed

text \<open>
  Claim C5. Let the context stay active while the frames are read and let the scanner end
  at the end of the input. Then \<open>Run\<close> returns no error; the number of parse-error
  responses it writes is the number of frames that are not empty and fail to decode; and
  at every frame that is empty or fails to decode the loop goes on with the frames after
  it, having written nothing for the empty frame and exactly one parse-error response for
  the one that fails to decode.
\<close>

theorem Run_skips_empty_and_survives_malformed:
  assumes "list_all (\<lambda>(c, line). c = Active) frames"
  shows "fst (Run js frames None st) = None
    \<and> length (filter is_parse_error (srv_output (fst (snd (Run js frames None st)))))
        = length (filter is_parse_error (srv_output (fst st)))
          + length (filter (malformed js) (map snd frames))
    \<and> (\<forall>pre line post. frames = pre @ (Active, line) # post \<longrightarrow>
         (line = [] \<longrightarrow>
            Run js frames None st = Run js post None (snd (Run js pre None st)))
       \<and> (\<forall>err. line \<noteq> [] \<and> unmarshal_Request js line = Inl err \<longrightarrow>
            Run js frames None st =
              Run js post None
                ((fst (snd (Run js pre None st)))
                   \<lparr>srv_output := srv_output (fst (snd (Run js pre None st)))
                                     @ [parse_error_response err]\<rparr>,
                 snd (snd (Run js pre None st)))))"
proof (intro conjI allI impI)
  show "fst (Run js frames None st) = None"
    using assms by (rule Run_returns_scanner_Err)
next
  show "length (filter is_parse_error (srv_output (fst (snd (Run js frames None st)))))
        = length (filter is_parse_error (srv_output (fst st)))
          + length (filter (malformed js) (map snd frames))"
    using assms by (rule Run_parse_error_count)
next
  fix pre line post
  assume split: "frames = pre @ (Active, line) # post" and empty: "line = []"
  from assms split have pre: "list_all (\<lambda>(c, line). c = Active) pre" by simp
  show "Run js frames None st = Run js post None (snd (Run js pre None st))"
    unfolding split Run_append [OF pre] using empty by simp
next
  fix pre line post err
  assume split: "frames = pre @ (Active, line) # post"
    and bad: "line \<noteq> [] \<and> unmarshal_Request js line = Inl err"
  from assms split have pre: "list_all (\<lambda>(c, line). c = Active) pre" by simp
  show "Run js frames None st =
      Run js post None
        ((fst (snd (Run js pre None st)))
           \<lparr>srv_output := srv_output (fst (snd (Run js pre None st))) @ [parse_error_response err]\<rparr>,
         snd (snd (Run js pre None st)))"
    unfolding split Run_append [OF pre] using bad by (simp add: sendError_parse_error)
qed

theorem Run_skips_empty_and_survives_malformed_witness:
  "list_all (\<lambda>(c, line). c = Active) [(Active, ''''), (Active, ''{oops''), (Active, ''list'')]
   \<and> Run example_json [(Active, ''''), (Active, ''{oops''), (Active, ''list'')] None
        (NewServer ''test-server'' ''1.0.0'', ())
      = (None,
         \<lparr>srv_name = ''test-server'', srv_version = ''1.0.0'', srv_tools = [],
          srv_output =
            [parse_error_response ''invalid character'',
             \<lparr>resp_JSONRPC = ''2.0'', resp_ID = VFloat64 1,
              resp_Result = Some (ResultMap [(''tools'', VArray [])]), resp_Error = None\<rparr>]\<rparr>,
         ())
   \<and> length (filter (malformed example_json) ['''', ''{oops'', ''list'']) = 1"
  using Run_skips_empty_and_survives_malformed
    [of "[(Active, ''''), (Active, ''{oops''), (Active, ''list'')]" example_json
        "(NewServer ''test-server'' ''1.0.0'', ())"]
  by (simp add: example_json_def NewServer_def sendError_parse_error handleRequest_def
        handleToolsList_def sendResult_def send_def malformed_def)

text \<open>
  Claim C7. A tools/call whose parameters decode and name a tool that is not in the
  registry writes exactly one envelope: a protocol error with the code -32602 (the code of
  invalid params), the message "Unknown tool" and the name as data. Dispatch is a total
  function, and neither the registry nor the state of the tool modules changes.
\<close>

theorem unknown_tool_is_protocol_error:
  assumes "req_Method req = ''tools/call''"
    and "unmarshal_CallParams js (req_Params req) = Inr (name, args)"
    and "map_of (srv_tools s) name = None"
  shows "handleRequest js ctx req (s, w) =
     (s\<lparr>srv_output := srv_output s @
          [\<lparr>resp_JSONRPC = ''2.0'', resp_ID = req_ID req, resp_Result = None,
            resp_Error = Some \<lparr>err_Code = - 32602, err_Message = ''Unknown tool'',
                               err_Data = VString name\<rparr>\<rparr>]\<rparr>, w)"
  using assms by (simp add: handleRequest_def handleToolsCall_def sendError_def send_def)

theorem unknown_tool_is_protocol_error_witness:
  "handleRequest example_json Active
     \<lparr>req_JSONRPC = ''2.0'', req_ID = VFloat64 3, req_Method = ''tools/call'',
      req_Params = ''echo''\<rparr>
     (RegisterTool counter_tool (NewServer ''test-server'' ''1.0.0''), ())
   = (\<lparr>srv_name = ''test-server'', srv_version = ''1.0.0'',
       srv_tools = [(''counter'', counter_tool)],
       srv_output =
         [\<lparr>resp_JSONRPC = ''2.0'', resp_ID = VFloat64 3, resp_Result = None,
           resp_Error = Some \<lparr>err_Code = - 32602, err_Message = ''Unknown tool'',
                              err_Data = VString ''echo''\<rparr>\<rparr>]\<rparr>, ())"
  using unknown_tool_is_protocol_error
    [of "\<lparr>req_JSONRPC = ''2.0'', req_ID = VFloat64 3, req_Method = ''tools/call'',
          req_Params = ''echo''\<rparr>" example_json "''echo''" Map.empty
        "RegisterTool counter_tool (NewServer ''test-server'' ''1.0.0'')" Active "()"]
  by (simp add: example_json_def RegisterTool_def NewServer_def counter_tool_def)

text \<open>
  Claim C6. A tools/call whose parameters decode, whose tool is registered and whose handler
  returns an error writes exactly one envelope: a result, with no protocol error, whose
  payload is a tool result with one text block holding the error's message and
  \<open>isError\<close> set.
\<close>

theorem handler_error_is_flagged_result:
  assumes "req_Method req = ''tools/call''"
    and "unmarshal_CallParams js (req_Params req) = Inr (name, args)"
    and "map_of (srv_tools s) name = Some tool"
    and "tool_Handler tool ctx args w = (Inl err, w')"
  shows "handleRequest js ctx req (s, w) =
     (s\<lparr>srv_output := srv_output s @
          [\<lparr>resp_JSONRPC = ''2.0'', resp_ID = req_ID req,
            resp_Result = Some (ResultTool \<lparr>tr_Content = [\<lparr>cb_Type = ''text'', cb_Text = err\<rparr>],
                                            tr_IsError = True\<rparr>),
            resp_Error = None\<rparr>]\<rparr>, w')"
  using assms by (simp add: handleRequest_def handleToolsCall_def sendResult_def send_def)

theorem handler_error_is_flagged_result_witness:
  "handleRequest example_json Active
     \<lparr>req_JSONRPC = ''2.0'', req_ID = VFloat64 2, req_Method = ''tools/call'',
      req_Params = ''counter''\<rparr>
     (RegisterTool counter_tool (NewServer ''test-server'' ''1.0.0''), ())
   = (\<lparr>srv_name = ''test-server'', srv_version = ''1.0.0'',
       srv_tools = [(''counter'', counter_tool)],
       srv_output =
         [\<lparr>resp_JSONRPC = ''2.0'', resp_ID = VFloat64 2,
           resp_Result = Some (ResultTool
             \<lparr>tr_Content = [\<lparr>cb_Type = ''text'',
                              cb_Text = ''parameter count must be an integer''\<rparr>],
              tr_IsError = True\<rparr>),
           resp_Error = None\<rparr>]\<rparr>, ())"
  using handler_error_is_flagged_result
    [of "\<lparr>req_JSONRPC = ''2.0'', req_ID = VFloat64 2, req_Method = ''tools/call'',
          req_Params = ''counter''\<rparr>" example_json "''counter''"
        "[''count'' \<mapsto> VString ''seven'']"
        "RegisterTool counter_tool (NewServer ''test-server'' ''1.0.0'')" counter_tool
        Active "()" "''parameter count must be an integer''" "()"]
  by (simp add: example_json_def RegisterTool_def NewServer_def counter_tool_def GetIntParam_def)

section \<open>The synchronous run\<close>

lemma truncate_output_nonneg:
  assumes "0 \<le> n"
  shows "truncate_output n s =
     Some (if n < int (length s) then take (nat n) s @ truncation_marker else s)"
  using assms by (simp add: truncate_output_def slice_to_def)

text \<open>
  Claim C4, as the code has it. Let the ceiling \<open>MaxOutputSizeBytes\<close> be a byte count, that is
  not negative. Then \<open>RunSync\<close> returns a result, and each of its two streams is cut on its
  own: a text longer than the ceiling becomes its first ceiling-many bytes followed by one
  truncation marker, a text within the ceiling is returned as it is. For stdout the text is
  the captured output. For stderr it is the text the result reports before the cut: the
  captured output when the run ended without error or with an exit status, and otherwise
  the text that replaces it ("command timed out", or the message of the run's error).
\<close>

theorem RunSync_truncates_each_stream:
  assumes "0 \<le> cfg_MaxOutputSizeBytes cfg"
  shows "(let out = run (if t \<le> 0 then cfg_DefaultTimeoutSeconds cfg else t);
              n = cfg_MaxOutputSizeBytes cfg;
              reported =
                (case run_err out of
                   None \<Rightarrow> run_stderr out
                 | Some (ExitError code) \<Rightarrow> run_stderr out
                 | Some (OtherError msg) \<Rightarrow>
                     if run_ctx out = DeadlineExceeded then ''command timed out'' else msg)
          in \<exists>r. RunSync cfg run t = Some r
               \<and> res_Stdout r =
                   (if n < int (length (run_stdout out))
                    then take (nat n) (run_stdout out) @ truncation_marker
                    else run_stdout out)
               \<and> res_Stderr r =
                   (if n < int (length reported)
                    then take (nat n) reported @ truncation_marker
                    else reported))"
proof -
  define out where "out = run (if t \<le> 0 then cfg_DefaultTimeoutSeconds cfg else t)"
  show ?thesis
  proof (cases "run_err out")
    case None
    then show ?thesis
      using assms unfolding out_def
      by (simp add: RunSync_def Let_def truncate_output_nonneg)
  next
    case (Some e)
    then show ?thesis
      using assms unfolding out_def
      by (cases e) (simp_all add: RunSync_def Let_def truncate_output_nonneg)
  qed
qed

theorem RunSync_truncates_each_stream_witness:
  "0 \<le> cfg_MaxOutputSizeBytes (example_config\<lparr>cfg_MaxOutputSizeBytes := 5\<rparr>)
   \<and> RunSync (example_config\<lparr>cfg_MaxOutputSizeBytes := 5\<rparr>)
       (\<lambda>secs. \<lparr>run_stdout = ''hello world'', run_stderr = ''warn'', run_err = None,
                 run_ctx = Active, run_duration_ms = 12\<rparr>) 0
     = Some \<lparr>res_ExitCode = 0, res_Stdout = ''hello'' @ truncation_marker,
             res_Stderr = ''warn'', res_DurationMs = 12, res_CommandID = ''''\<rparr>"
  using RunSync_truncates_each_stream
    [of "example_config\<lparr>cfg_MaxOutputSizeBytes := 5\<rparr>"
        "\<lambda>secs. \<lparr>run_stdout = ''hello world'', run_stderr = ''warn'', run_err = None,
                 run_ctx = Active, run_duration_ms = 12\<rparr>" 0]
  by (simp add: example_config_def RunSync_def truncate_output_def slice_to_def Let_def)

text \<open>
  Claim C4 as it is written speaks of the captured stderr. It fails where the run ends with
  an error that is not an exit status. First input: the captured stderr (13 bytes) exceeds
  a ceiling of 4 and the deadline branch is taken; the result holds the cut of "command
  timed out", not the first 4 captured bytes and the marker. Second input: the executable
  is missing, the captured stderr is empty and within the ceiling, and the result holds
  the start error's message, not the empty text.
\<close>

theorem RunSync_stderr_replaced_counterexample:
  "(let out = \<lparr>run_stdout = ''building'', run_stderr = ''warning: slow'',
                 run_err = Some (OtherError ''context deadline exceeded''),
                 run_ctx = DeadlineExceeded, run_duration_ms = 1000\<rparr>;
        cfg = example_config\<lparr>cfg_MaxOutputSizeBytes := 4\<rparr>
    in cfg_MaxOutputSizeBytes cfg < int (length (run_stderr out))
     \<and> map_option res_Stderr (RunSync cfg (\<lambda>secs. out) 1) = Some (''comm'' @ truncation_marker)
     \<and> ''comm'' @ truncation_marker \<noteq> take 4 (run_stderr out) @ truncation_marker)
   \<and> (let out = \<lparr>run_stdout = '''', run_stderr = '''',
                   run_err = Some (OtherError ''exec: nosuchcmd: executable file not found''),
                   run_ctx = Active, run_duration_ms = 0\<rparr>
      in int (length (run_stderr out)) \<le> cfg_MaxOutputSizeBytes example_config
       \<and> map_option res_Stderr (RunSync example_config (\<lambda>secs. out) 5)
           = Some ''exec: nosuchcmd: executable file not found''
       \<and> ''exec: nosuchcmd: executable file not found'' \<noteq> run_stderr out)"
  by (simp add: RunSync_def example_config_def truncate_output_def slice_to_def Let_def)

text \<open>
  Claim C3 does not hold of the code. When the deadline passes, \<open>exec.CommandContext\<close>
  kills the subprocess, and \<open>cmd.Run()\<close> returns an \<open>*exec.ExitError\<close> for the killed
  process (exit code -1) while \<open>ctx.Err()\<close> is \<open>DeadlineExceeded\<close>. \<open>RunSync\<close> tests for the
  exit error first, so the branch that writes "command timed out" is not taken: the
  result carries exit code -1 and the captured stderr, with no marker, and it is the same
  result as for a subprocess killed while the deadline has not passed.
\<close>

theorem RunSync_deadline_kill_reports_no_timeout:
  "RunSync example_config
     (\<lambda>secs. \<lparr>run_stdout = ''partial output'', run_stderr = '''',
               run_err = Some (ExitError (- 1)), run_ctx = DeadlineExceeded,
               run_duration_ms = secs * 1000\<rparr>) 1
   = Some \<lparr>res_ExitCode = - 1, res_Stdout = ''partial output'', res_Stderr = '''',
           res_DurationMs = 1000, res_CommandID = ''''\<rparr>
   \<and> RunSync example_config
     (\<lambda>secs. \<lparr>run_stdout = ''partial output'', run_stderr = '''',
               run_err = Some (ExitError (- 1)), run_ctx = DeadlineExceeded,
               run_duration_ms = secs * 1000\<rparr>) 1
   = RunSync example_config
     (\<lambda>secs. \<lparr>run_stdout = ''partial output'', run_stderr = '''',
               run_err = Some (ExitError (- 1)), run_ctx = Active,
               run_duration_ms = secs * 1000\<rparr>) 1"
  by (simp add: RunSync_def example_config_def truncate_output_def Let_def)

section \<open>Asynchronous commands\<close>

text \<open>
  Claim C8. When \<open>cmd.Start()\<close> fails, \<open>RunAsync\<close> returns that error and leaves the table
  as it was: every status query answers as before, and if the id generated for the attempt
  was not in the table, a status query for it finds nothing and a cancel returns false.
\<close>

theorem RunAsync_start_failure_creates_no_task:
  assumes "start_err = Some err"
  shows "RunAsync e uuid now start_err = (Inl err, e)
    \<and> (\<forall>commandID.
          GetStatus (snd (RunAsync e uuid now start_err)) commandID = GetStatus e commandID)
    \<and> (GetStatus e uuid = None \<longrightarrow>
          GetStatus (snd (RunAsync e uuid now start_err)) uuid = None
        \<and> CancelCommand (snd (RunAsync e uuid now start_err)) uuid
            = (False, snd (RunAsync e uuid now start_err)))"
  using assms by (simp add: RunAsync_def GetStatus_def CancelCommand_def)

theorem RunAsync_start_failure_creates_no_task_witness:
  "RunAsync (NewExecutor example_config) ''6ba7b810'' 1000
       (Some ''fork/exec /bin/nosuchcmd: no such file or directory'')
     = (Inl ''fork/exec /bin/nosuchcmd: no such file or directory'', NewExecutor example_config)
   \<and> GetStatus (NewExecutor example_config) ''6ba7b810'' = None
   \<and> GetStatus (snd (RunAsync (NewExecutor example_config) ''6ba7b810'' 1000
        (Some ''fork/exec /bin/nosuchcmd: no such file or directory''))) ''6ba7b810'' = None
   \<and> fst (CancelCommand (snd (RunAsync (NewExecutor example_config) ''6ba7b810'' 1000
        (Some ''fork/exec /bin/nosuchcmd: no such file or directory''))) ''6ba7b810'') = False"
  using RunAsync_start_failure_creates_no_task
    [of "Some ''fork/exec /bin/nosuchcmd: no such file or directory''"
        "''fork/exec /bin/nosuchcmd: no such file or directory''"
        "NewExecutor example_config" "''6ba7b810''" 1000]
  by (simp add: GetStatus_def NewExecutor_def CancelCommand_def)

text \<open>
  Claim C1 does not hold of the code. \<open>CancelCommand\<close> tests for the status "running"
  before it writes, the watcher writes without a test. A command is started and cancelled
  while running: the cancel returns true and the status is "cancelled". The watcher then
  sees the subprocess end and overwrites the status: with "completed" if the subprocess
  had exited with status 0 at that instant, with "failed" if it died of the kill.
\<close>

theorem cancel_then_exit_overwrites_cancelled:
  "(let e1 = snd (RunAsync (NewExecutor example_config) ''6ba7b810'' 1000 None);
        e2 = snd (CancelCommand e1 ''6ba7b810'')
    in fst (CancelCommand e1 ''6ba7b810'') = True
     \<and> map_option cmd_Status (GetStatus e2 ''6ba7b810'') = Some ''cancelled''
     \<and> map_option cmd_Status
         (GetStatus (watcher_runs ''6ba7b810'' None 1005 e2) ''6ba7b810'') = Some ''completed''
     \<and> map_option cmd_Status
         (GetStatus (watcher_runs ''6ba7b810'' (Some (ExitError (- 1))) 1005 e2) ''6ba7b810'')
         = Some ''failed'')"
  by (simp add: RunAsync_def NewExecutor_def CancelCommand_def GetStatus_def watcher_runs_def
        watcher_def new_AsyncCommand_def Let_def)

text \<open>
  The cancel transition alone is idempotent: whatever the table holds, a cancel that
  follows a cancel of the same id returns false and changes nothing.
\<close>

theorem CancelCommand_twice:
  "CancelCommand (snd (CancelCommand e commandID)) commandID
     = (False, snd (CancelCommand e commandID))"
  by (cases "exec_asyncCommands e commandID") (auto simp: CancelCommand_def)

section \<open>Status snapshots\<close>

lemma watcher_after_pause:
  "watcher err now asyncCmd =
     (watcher_before_Status err now asyncCmd)\<lparr>cmd_Status := watcher_Status err\<rparr>"
  by (simp add: watcher_def watcher_before_Status_def)

text \<open>
  Claim C2 does not hold of the code. Neither the watcher nor the status handler takes a
  lock, so a status query can run between two of the watcher's assignments. A command is
  running and its subprocess exits with status 3. The watcher has assigned \<open>EndTime\<close> and
  \<open>ExitCode\<close> and has not yet assigned \<open>Status\<close> when the status handler reads the
  command: the snapshot reports the status "running" together with the exit code 3 and a
  \<open>duration_ms\<close>, a record that is updated in part.
\<close>

theorem status_query_sees_partial_update:
  "(let e1 = snd (RunAsync (NewExecutor example_config) ''6ba7b810'' 1000 None);
        e2 = watcher_pauses ''6ba7b810'' (Some (ExitError 3)) 1005 e1
    in handleGetCommandStatus e2 [''command_id'' \<mapsto> VString ''6ba7b810'']
         = Inr \<lparr>st_command_id = ''6ba7b810'', st_status = ''running'', st_exit_code = 3,
                st_stdout = [], st_stderr = [], st_duration_ms = Some 5,
                st_elapsed_ms = None\<rparr>
       \<and> map_option cmd_Status
           (GetStatus (watcher_runs ''6ba7b810'' (Some (ExitError 3)) 1005 e1) ''6ba7b810'')
           = Some ''failed'')"
  by (simp add: RunAsync_def NewExecutor_def handleGetCommandStatus_def GetStringParam_def
        GetStatus_def watcher_pauses_def watcher_before_Status_def watcher_runs_def watcher_def
        new_AsyncCommand_def Let_def)

end
